theory Spec2Isabelle
  imports Main "HOL-Library.FSet"
begin

section \<open>The external store of the tearing study\<close>

text \<open>
  The development follows \<^verbatim>\<open>hooks/useMousePosition.ts\<close> (the store and the two hooks) and
  \<^verbatim>\<open>main.tsx\<close> (the rendering root). The store is a closure over three things: the object
  \<^verbatim>\<open>data\<close>, the \<^verbatim>\<open>Set\<close> of listeners, and the function \<^verbatim>\<open>callback\<close> that it registers on
  \<^verbatim>\<open>window\<close>. The model passes them around as one record.
\<close>

subsection \<open>Data\<close>

text \<open>
  \<^verbatim>\<open>type Listener = () => void\<close>. A \<^verbatim>\<open>Set\<close> compares functions by identity, so a listener is
  modelled by its identity.
\<close>

type_synonym Listener = nat

text \<open>
  \<^verbatim>\<open>MouseEvent\<close>: only \<^verbatim>\<open>clientX\<close> is read. The coordinate is stored and handed on, never
  computed with, so an integer stands for the JavaScript number.
\<close>

record MouseEvent =
  clientX :: int

text \<open>\<^verbatim>\<open>const data = { x: 0 }\<close>\<close>

record data_obj =
  x :: int

text \<open>
  Everything the closures of \<^verbatim>\<open>createExternalStore\<close> share:
  \<^item> \<open>data\<close>: the object \<^verbatim>\<open>data\<close>;
  \<^item> \<open>listeners\<close>: \<^verbatim>\<open>const listeners: Set<Listener> = new Set()\<close>, a finite set (the source
    never iterates it, so the insertion order of a JavaScript \<^verbatim>\<open>Set\<close> is not observable);
  \<^item> \<open>attached\<close>: whether \<^verbatim>\<open>callback\<close> is currently registered on \<^verbatim>\<open>window\<close> for
    \<^verbatim>\<open>"mousemove"\<close>;
  \<^item> \<open>invoked\<close>: the trace of listener calls made so far, oldest first. A call of a
    listener \<open>l\<close> would append \<open>l\<close> to it.
\<close>

record world =
  data :: data_obj
  listeners :: "Listener fset"
  attached :: bool
  invoked :: "Listener list"

subsection \<open>The store\<close>

text \<open>
  \<^verbatim>\<open>const callback = (event: MouseEvent) => { data.x = event.clientX; }\<close>

  The body is this one assignment: it calls nothing, so the trace is left as it is.
\<close>

definition callback :: "MouseEvent \<Rightarrow> world \<Rightarrow> world" where
  "callback event w = w\<lparr>data := (data w)\<lparr>x := clientX event\<rparr>\<rparr>"

text \<open>
  \<^verbatim>\<open>createExternalStore\<close>: \<^verbatim>\<open>data = { x: 0 }\<close>, an empty listener set, and
  \<^verbatim>\<open>window.addEventListener("mousemove", callback)\<close>. No listener has been called yet.
\<close>

definition createExternalStore :: world where
  "createExternalStore = \<lparr>data = \<lparr>x = 0\<rparr>, listeners = {||}, attached = True, invoked = []\<rparr>"

text \<open>
  \<^verbatim>\<open>get value() { return data; }\<close>. Every operation returns its result together with the
  world it leaves behind; the getter leaves the one it found.
\<close>

definition value_get :: "world \<Rightarrow> data_obj \<times> world" where
  "value_get w = (data w, w)"

text \<open>
  The handle returned by \<^verbatim>\<open>subscribe(listener)\<close>:
  \<^verbatim>\<open>() => { listeners.delete(listener); }\<close>. \<^verbatim>\<open>Set.prototype.delete\<close> of an absent
  element returns \<^verbatim>\<open>false\<close> and does not throw, so the handle has no error branch.
\<close>

definition unsubscribe :: "Listener \<Rightarrow> world \<Rightarrow> world" where
  "unsubscribe listener w = w\<lparr>listeners := listeners w |-| {|listener|}\<rparr>"

text \<open>
  \<^verbatim>\<open>subscribe(listener) { listeners.add(listener); return () => {...}; }\<close>: the result
  is the handle, a closure over \<open>listener\<close>.
\<close>

definition subscribe :: "Listener \<Rightarrow> world \<Rightarrow> (world \<Rightarrow> world) \<times> world" where
  "subscribe listener w =
     (unsubscribe listener, w\<lparr>listeners := finsert listener (listeners w)\<rparr>)"

text \<open>
  \<^verbatim>\<open>destroy() { listeners.clear(); window.removeEventListener("mousemove", callback); }\<close>
\<close>

definition destroy :: "world \<Rightarrow> world" where
  "destroy w = w\<lparr>listeners := {||}, attached := False\<rparr>"

text \<open>
  The event source: \<^verbatim>\<open>window\<close> hands a \<^verbatim>\<open>mousemove\<close> event to \<^verbatim>\<open>callback\<close> exactly while
  \<^verbatim>\<open>callback\<close> is registered (between \<^verbatim>\<open>addEventListener\<close> and \<^verbatim>\<open>removeEventListener\<close>).
\<close>

definition window_mousemove :: "MouseEvent \<Rightarrow> world \<Rightarrow> world" where
  "window_mousemove event w = (if attached w then callback event w else w)"

subsection \<open>The hooks\<close>

text \<open>
  \<^verbatim>\<open>const getState = useCallback(() => ref.current.value.x, [])\<close>, where
  \<^verbatim>\<open>ref.current\<close> is the module's one store.
\<close>

definition getState :: "world \<Rightarrow> int \<times> world" where
  "getState w = (case value_get w of (d, w') \<Rightarrow> (x d, w'))"

text \<open>
  \<^verbatim>\<open>useMousePosition\<close>: \<^verbatim>\<open>return ref.current.value.x\<close>. The formatter given to
  \<^verbatim>\<open>useDebugValue\<close> only reads, and only when developer tools ask for it.
\<close>

definition useMousePosition :: "world \<Rightarrow> int \<times> world" where
  "useMousePosition w = (case value_get w of (d, w') \<Rightarrow> (x d, w'))"

text \<open>
  \<^verbatim>\<open>useSyncMousePosition\<close>: \<^verbatim>\<open>return useSyncExternalStore(ref.current.subscribe, getState)\<close>.
  The hook \<^verbatim>\<open>useSyncExternalStore\<close> comes from the package
  \<^verbatim>\<open>use-sync-external-store/shim\<close>, which is not part of the repository, so it is a
  parameter here: a function of the store's \<open>subscribe\<close>, of the snapshot reader and of
  the world in which a render pass runs.
\<close>

type_synonym sync_hook =
  "(Listener \<Rightarrow> world \<Rightarrow> (world \<Rightarrow> world) \<times> world) \<Rightarrow> (world \<Rightarrow> int \<times> world)
     \<Rightarrow> world \<Rightarrow> int \<times> world"

definition useSyncMousePosition :: "sync_hook \<Rightarrow> world \<Rightarrow> int \<times> world" where
  "useSyncMousePosition useSyncExternalStore w = useSyncExternalStore subscribe getState w"

text \<open>
  Modelled from the spec: the render pass of \<^verbatim>\<open>useSyncExternalStore\<close>, whose code is in
  the package \<^verbatim>\<open>use-sync-external-store\<close> and not in the repository. Per render attempt
  the specification says: read \<^verbatim>\<open>value = getCurrentValue()\<close>, return \<^verbatim>\<open>value\<close> as the
  attempt's output; subscribing happens only after the attempt is selected for commit,
  never during the attempt.
\<close>

definition useSyncExternalStore_render :: sync_hook where
  "useSyncExternalStore_render subscribe' getSnapshot w = getSnapshot w"

subsection \<open>The operations as one step function\<close>

text \<open>
  What can happen to a store, one at a time: a read through the getter, a
  \<^verbatim>\<open>subscribe\<close>, a call of a handle that \<^verbatim>\<open>subscribe\<close> returned, \<^verbatim>\<open>destroy\<close>, and a
  \<^verbatim>\<open>mousemove\<close> event on \<^verbatim>\<open>window\<close>.
\<close>

datatype op =
    Value
  | Subscribe Listener
  | Unsubscribe Listener
  | Destroy
  | Mousemove MouseEvent

fun step :: "op \<Rightarrow> world \<Rightarrow> world" where
  "step Value w = snd (value_get w)"
| "step (Subscribe l) w = snd (subscribe l w)"
| "step (Unsubscribe l) w = unsubscribe l w"
| "step Destroy w = destroy w"
| "step (Mousemove event) w = window_mousemove event w"

fun is_Mousemove :: "op \<Rightarrow> bool" where
  "is_Mousemove (Mousemove event) = True"
| "is_Mousemove _ = False"

subsection \<open>The rendering root\<close>

text \<open>
  \<^verbatim>\<open>main.tsx\<close>:
  \<^verbatim>\<open>const container = document.getElementById("root");\<close>
  \<^verbatim>\<open>if (!container) throw new Error("Missing container");\<close>
  \<^verbatim>\<open>const root = ReactDOM.createRoot(container);\<close>
  \<^verbatim>\<open>root.render(...)\<close>

  A document is its map from ids to elements; \<^verbatim>\<open>getElementById\<close> returns \<^verbatim>\<open>null\<close> for an
  id it does not have, and \<^verbatim>\<open>null\<close> is the only falsy value of \<^verbatim>\<open>HTMLElement | null\<close>.
  The module's result is the thrown error or normal completion, together with the
  calls into \<^verbatim>\<open>ReactDOM\<close> it made, in order.
\<close>

datatype HTMLElement = HTMLElement nat

type_synonym Document = "string \<rightharpoonup> HTMLElement"

datatype error = Error string

datatype effect = CreateRoot HTMLElement | RootRender HTMLElement

definition getElementById :: "Document \<Rightarrow> string \<Rightarrow> HTMLElement option" where
  "getElementById document ident = document ident"

definition main :: "Document \<Rightarrow> (error + unit) \<times> effect list" where
  "main document =
     (case getElementById document ''root'' of
        None \<Rightarrow> (Inl (Error ''Missing container''), [])
      | Some container \<Rightarrow> (Inr (), [CreateRoot container, RootRender container]))"

section \<open>Shared facts\<close>

lemma callback_fields:
  "data (callback event w) = \<lparr>x = clientX event\<rparr>"
  "listeners (callback event w) = listeners w"
  "attached (callback event w) = attached w"
  "invoked (callback event w) = invoked w"
  by (simp_all add: callback_def)

lemma step_invoked: "invoked (step a w) = invoked w"
  by (cases a)
    (simp_all add: value_get_def subscribe_def unsubscribe_def destroy_def
      window_mousemove_def callback_def)

lemma fold_step_invoked: "invoked (fold step ops w) = invoked w"
  by (induction ops arbitrary: w) (simp_all add: step_invoked)

lemma step_data: "\<not> is_Mousemove a \<Longrightarrow> data (step a w) = data w"
  by (cases a) (simp_all add: value_get_def subscribe_def unsubscribe_def destroy_def)

lemma fold_step_data:
  "\<forall>a \<in> set ops. \<not> is_Mousemove a \<Longrightarrow> data (fold step ops w) = data w"
  by (induction ops arbitrary: w) (simp_all add: step_data)

lemma fold_callback_snoc:
  "fold callback (events @ [event]) w = callback event (fold callback events w)"
  by simp

lemma fold_mousemove_detached:
  "\<not> attached w \<Longrightarrow> fold window_mousemove events w = w"
  by (induction events) (simp_all add: window_mousemove_def)

lemma step_detached:
  "\<not> attached w \<Longrightarrow> \<not> attached (step a w) \<and> data (step a w) = data w"
  by (cases a)
    (simp_all add: value_get_def subscribe_def unsubscribe_def destroy_def
      window_mousemove_def)

lemma fold_step_detached:
  "\<not> attached w \<Longrightarrow> data (fold step ops w) = data w \<and> \<not> attached (fold step ops w)"
proof (induction ops arbitrary: w)
  case Nil
  then show ?case by simp
next
  case (Cons a ops)
  from Cons.prems have "\<not> attached (step a w)" and "data (step a w) = data w"
    using step_detached by blast+
  with Cons.IH [of "step a w"] show ?case by simp
qed

lemma ffilter_eq_finsert: "ffilter (\<lambda>k. k = l) (finsert l S) = {|l|}"
  by auto

section \<open>The event handler and its listeners\<close>

text \<open>
  C1, as the specification states it: after the handler has stored the new value, every
  listener registered through \<open>subscribe\<close> has been called. The handler of the source
  does not do that. With listener 7 registered on a fresh store, a \<^verbatim>\<open>mousemove\<close> with
  \<^verbatim>\<open>clientX = 5\<close> stores 5, and listener 7, still registered, has not been called.
\<close>

theorem callback_notifies_counterexample:
  "7 |\<in>| listeners (window_mousemove \<lparr>clientX = 5\<rparr> (snd (subscribe 7 createExternalStore)))
   \<and> x (data (window_mousemove \<lparr>clientX = 5\<rparr> (snd (subscribe 7 createExternalStore)))) = 5
   \<and> 7 \<notin> set (invoked (window_mousemove \<lparr>clientX = 5\<rparr> (snd (subscribe 7 createExternalStore))))"
  by (simp add: subscribe_def createExternalStore_def window_mousemove_def callback_def)

text \<open>
  C1, amended: for every \<^verbatim>\<open>mousemove\<close> event, the handler stores the event's
  \<^verbatim>\<open>clientX\<close> as the value; it calls no listener, and it leaves the listener set and the
  registration on \<^verbatim>\<open>window\<close> as they were.
\<close>

theorem callback_writes_value_only:
  "data (callback event w) = \<lparr>x = clientX event\<rparr>
   \<and> invoked (callback event w) = invoked w
   \<and> listeners (callback event w) = listeners w
   \<and> attached (callback event w) = attached w"
  by (simp add: callback_fields)

section \<open>Unsubscribing\<close>

text \<open>
  C3: let \<open>unsub\<close> be the handle that \<open>subscribe l\<close> returned. Calling it a second time
  changes nothing (the handle is a total function without an error branch, so nothing
  is thrown), and what is left registered is everything that was registered except
  \<open>l\<close>: no other listener is removed. A \<^verbatim>\<open>mousemove\<close> that arrives after the first call
  calls no listener, and a second call of the handle after it still removes nothing
  else and calls nothing.
\<close>

theorem unsubscribe_twice_absorbed:
  "case subscribe l w of (unsub, w1) \<Rightarrow>
       unsub (unsub w1) = unsub w1
     \<and> listeners (unsub (unsub w1)) = listeners w1 |-| {|l|}
     \<and> invoked (unsub (unsub w1)) = invoked w
     \<and> invoked (window_mousemove event (unsub w1)) = invoked w
     \<and> listeners (unsub (window_mousemove event (unsub w1))) = listeners w1 |-| {|l|}
     \<and> invoked (unsub (window_mousemove event (unsub w1))) = invoked w"
  by (simp add: subscribe_def unsubscribe_def window_mousemove_def callback_def)

section \<open>Reading the value\<close>

text \<open>
  C4: after any sequence of events handled by \<open>callback\<close>, the last of them being
  \<open>event\<close>, the getter returns the object holding \<open>clientX event\<close> and \<open>getState\<close>
  returns \<open>clientX event\<close>; both return the world they were called in, so the stored
  value and the listener set are untouched by the read.
\<close>

theorem getter_returns_latest_write:
  "value_get (fold callback (events @ [event]) w)
     = (\<lparr>x = clientX event\<rparr>, fold callback (events @ [event]) w)
   \<and> getState (fold callback (events @ [event]) w)
     = (clientX event, fold callback (events @ [event]) w)"
  by (simp add: getState_def value_get_def callback_fields)

text \<open>
  C5: an operation of the store that is not the delivery of a \<^verbatim>\<open>mousemove\<close> event (a read
  of the value, a \<open>subscribe\<close>, a call of an unsubscribe handle, \<open>destroy\<close>) leaves the
  stored value as it was: only the event handler writes it.
\<close>

theorem value_single_writer:
  "\<not> is_Mousemove a \<longrightarrow> data (step a w) = data w"
  by (simp add: step_data)

theorem value_single_writer_witness:
  "\<not> is_Mousemove Destroy \<and> data (step Destroy createExternalStore) = data createExternalStore"
  using value_single_writer [of Destroy createExternalStore] by simp

section \<open>Teardown\<close>

text \<open>
  C6: after \<open>destroy\<close> the listener set is empty and \<open>callback\<close> is no longer registered
  on \<^verbatim>\<open>window\<close>. From then on \<^verbatim>\<open>mousemove\<close> events change nothing at all, and whatever
  operations follow (events, reads, new subscriptions), the value stays what it was and
  no listener is called, in particular none that was registered before the call.
\<close>

theorem destroy_silences_store:
  "listeners (destroy w) = {||}
   \<and> \<not> attached (destroy w)
   \<and> fold window_mousemove events (destroy w) = destroy w
   \<and> data (fold step ops (destroy w)) = data w
   \<and> invoked (fold step ops (destroy w)) = invoked w"
proof -
  have detached: "\<not> attached (destroy w)"
    by (simp add: destroy_def)
  have "fold window_mousemove events (destroy w) = destroy w"
    using detached by (rule fold_mousemove_detached)
  moreover have "data (fold step ops (destroy w)) = data (destroy w)"
    using detached fold_step_detached by blast
  moreover have "invoked (fold step ops (destroy w)) = invoked (destroy w)"
    by (rule fold_step_invoked)
  ultimately show ?thesis
    by (simp add: destroy_def)
qed

section \<open>The two hooks\<close>

text \<open>
  C7: a render of \<open>useMousePosition\<close> returns the \<open>x\<close> of the object the getter hands
  out, computed from the store alone (the hook has no earlier snapshot to compare
  with), and leaves the world as it found it: no listener is registered.
\<close>

theorem useMousePosition_reads_directly:
  "fst (useMousePosition w) = x (fst (value_get w))
   \<and> fst (useMousePosition w) = x (data w)
   \<and> snd (useMousePosition w) = w"
  by (simp add: useMousePosition_def value_get_def)

text \<open>
  C9: the store starts with \<open>x = 0\<close>. As long as no \<^verbatim>\<open>mousemove\<close> event has been
  delivered, whatever reads, subscriptions, unsubscriptions and teardown took place,
  \<open>useMousePosition\<close> returns 0, and so does \<open>useSyncMousePosition\<close> with any
  \<^verbatim>\<open>useSyncExternalStore\<close> whose render pass returns what its snapshot reader returns.
\<close>

theorem initial_value_zero:
  assumes hook: "\<forall>sub get s. fst (uses sub get s) = fst (get s)"
    and quiet: "\<forall>a \<in> set ops. \<not> is_Mousemove a"
  shows "fst (useMousePosition (fold step ops createExternalStore)) = 0
     \<and> fst (useSyncMousePosition uses (fold step ops createExternalStore)) = 0"
proof -
  have "data (fold step ops createExternalStore) = data createExternalStore"
    using quiet by (rule fold_step_data)
  then have zero: "x (data (fold step ops createExternalStore)) = 0"
    by (simp add: createExternalStore_def)
  have "fst (useSyncMousePosition uses (fold step ops createExternalStore))
      = fst (getState (fold step ops createExternalStore))"
    using hook by (simp add: useSyncMousePosition_def)
  with zero show ?thesis
    by (simp add: useMousePosition_def getState_def value_get_def)
qed

theorem initial_value_zero_witness:
  "(\<forall>sub get s. fst (useSyncExternalStore_render sub get s) = fst (get s))
   \<and> \<not> is_Mousemove (Subscribe 1) \<and> \<not> is_Mousemove Value \<and> \<not> is_Mousemove (Unsubscribe 1)
   \<and> fst (useMousePosition (fold step [Subscribe 1, Value, Unsubscribe 1] createExternalStore)) = 0
   \<and> fst (useSyncMousePosition useSyncExternalStore_render
        (fold step [Subscribe 1, Value, Unsubscribe 1] createExternalStore)) = 0"
proof -
  have hook: "\<forall>sub get s. fst (useSyncExternalStore_render sub get s) = fst (get s)"
    by (simp add: useSyncExternalStore_render_def)
  have quiet: "\<forall>a \<in> set [Subscribe 1, Value, Unsubscribe 1]. \<not> is_Mousemove a"
    by simp
  from initial_value_zero [OF hook quiet] hook show ?thesis
    by simp
qed

section \<open>Set semantics of the listener registry\<close>

text \<open>
  C10: subscribe the same listener \<open>l\<close> twice, getting the handles \<open>u1\<close> and \<open>u2\<close>.
  The second call changes nothing, and exactly one entry for \<open>l\<close> exists. Calling
  either handle removes it, and calling the other one afterwards changes nothing.
\<close>

theorem subscribe_same_listener_once:
  "case subscribe l w of (u1, w1) \<Rightarrow> case subscribe l w1 of (u2, w2) \<Rightarrow>
       w2 = w1
     \<and> fcard (ffilter (\<lambda>k. k = l) (listeners w2)) = 1
     \<and> fcard (listeners w2) = fcard (listeners w1)
     \<and> l |\<notin>| listeners (u1 w2) \<and> u2 (u1 w2) = u1 w2
     \<and> l |\<notin>| listeners (u2 w2) \<and> u1 (u2 w2) = u2 w2"
  by (simp add: subscribe_def unsubscribe_def ffilter_eq_finsert fcard_finsert_if)

section \<open>The rendering root\<close>

text \<open>
  C8: when the document has no element with id \<^verbatim>\<open>root\<close>, the module throws
  \<^verbatim>\<open>Error("Missing container")\<close> and has made no call into \<^verbatim>\<open>ReactDOM\<close>: nothing was
  rendered. When the element is there, the module completes without an error.
\<close>

theorem main_container_guard:
  "(getElementById document ''root'' = None
      \<longrightarrow> main document = (Inl (Error ''Missing container''), []))
   \<and> (getElementById document ''root'' \<noteq> None
      \<longrightarrow> fst (main document) = Inr ())"
  by (auto simp: main_def split: option.splits)

theorem main_container_guard_witness:
  "getElementById Map.empty ''root'' = None
   \<and> main Map.empty = (Inl (Error ''Missing container''), [])
   \<and> getElementById [''root'' \<mapsto> HTMLElement 0] ''root'' \<noteq> None
   \<and> fst (main [''root'' \<mapsto> HTMLElement 0]) = Inr ()"
  using main_container_guard [of Map.empty]
    main_container_guard [of "[''root'' \<mapsto> HTMLElement 0]"]
  by (simp add: getElementById_def)

end
